theory Spec2Isabelle
  imports Main "HOL-Library.Word"
begin

section \<open>Unit collector: text primitives\<close>

text \<open>
  The text that \<open>systemctl\<close> prints is a Go string. \<open>strings.TrimSpace\<close> and
  \<open>strings.Fields\<close> read it rune by rune and ask \<open>unicode.IsSpace\<close> of each rune, so the
  model takes the text as its sequence of runes (code points). \<open>strings.Split\<close> on the
  one-byte separator \<open>"\n"\<close> cuts at the same places on bytes and on runes.
\<close>

type_synonym rune = nat
type_synonym gostr = "rune list"

definition runes :: "string \<Rightarrow> gostr" where
  "runes s = map of_char s"

text \<open>\<open>unicode.IsSpace\<close>: the Latin-1 spaces and the runes of category Z / property
  Pattern_White_Space.\<close>

definition isSpace :: "rune \<Rightarrow> bool" where
  "isSpace r \<longleftrightarrow>
     r = 9 \<or> r = 10 \<or> r = 11 \<or> r = 12 \<or> r = 13 \<or> r = 32 \<or> r = 133 \<or> r = 160 \<or>
     r = 5760 \<or> (8192 \<le> r \<and> r \<le> 8202) \<or> r = 8232 \<or> r = 8233 \<or> r = 8239 \<or>
     r = 8287 \<or> r = 12288"

text \<open>\<open>strings.TrimSpace\<close>: leading and trailing white space removed.\<close>

definition TrimSpace :: "gostr \<Rightarrow> gostr" where
  "TrimSpace s = rev (dropWhile isSpace (rev (dropWhile isSpace s)))"

text \<open>\<open>strings.Fields\<close>: the maximal runs of non-space runes, in order. \<open>cur\<close> is the
  field being read (from \<open>fieldStart\<close> to the current position in the Go loop).\<close>

fun fields_from :: "gostr \<Rightarrow> gostr \<Rightarrow> gostr list" where
  "fields_from cur [] = (if cur = [] then [] else [cur])"
| "fields_from cur (c # cs) =
     (if isSpace c then (if cur = [] then fields_from [] cs else cur # fields_from [] cs)
      else fields_from (cur @ [c]) cs)"

definition Fields :: "gostr \<Rightarrow> gostr list" where
  "Fields s = fields_from [] s"

text \<open>\<open>strings.Split(s, "\n")\<close>: always at least one piece.\<close>

fun Split_nl :: "gostr \<Rightarrow> gostr list" where
  "Split_nl [] = [[]]"
| "Split_nl (c # cs) =
     (if c = 10 then [] # Split_nl cs
      else (case Split_nl cs of [] \<Rightarrow> [[c]] | l # ls \<Rightarrow> (c # l) # ls))"

text \<open>\<open>strings.Join(parts, sep)\<close>.\<close>

fun Join :: "gostr list \<Rightarrow> gostr \<Rightarrow> gostr" where
  "Join [] sep = []"
| "Join [p] sep = p"
| "Join (p # q # ps) sep = p @ sep @ Join (q # ps) sep"

section \<open>Unit collector: parsing\<close>

record SystemdUnit =
  Unit :: gostr
  Load :: gostr
  Active :: gostr
  Sub :: gostr
  Description :: gostr

text \<open>The body of the \<open>for _, line := range lines\<close> loop of \<open>getSystemdServices\<close>:
  from the records so far and one line to the records after it. \<open>parts[4:]\<close> is
  \<open>drop 4 parts\<close>; the indices 0..3 are read only where \<open>len(parts) >= 4\<close>.\<close>

definition mkUnit :: "gostr list \<Rightarrow> SystemdUnit" where
  "mkUnit parts =
     \<lparr>Unit = parts ! 0, Load = parts ! 1, Active = parts ! 2, Sub = parts ! 3,
      Description = Join (drop 4 parts) (runes '' '')\<rparr>"

definition parse_line :: "SystemdUnit list \<Rightarrow> gostr \<Rightarrow> SystemdUnit list" where
  "parse_line services line0 =
     (let line = TrimSpace line0 in
      if line = [] then services
      else
        let parts = Fields line in
        if length parts < 5 then
          (if length parts \<ge> 4 then services @ [mkUnit parts] else services)
        else services @ [mkUnit parts])"

definition parse_lines :: "gostr list \<Rightarrow> SystemdUnit list" where
  "parse_lines lines = foldl parse_line [] lines"

definition parse_output :: "gostr \<Rightarrow> SystemdUnit list" where
  "parse_output output = parse_lines (Split_nl (TrimSpace output))"

section \<open>Shared run-time notions\<close>

text \<open>A Go \<open>error\<close> value is kept as its message. A channel on which only \<open>close\<close> is
  ever performed is open or closed; closing a closed channel and calling through a nil
  pointer are run-time panics.\<close>

type_synonym go_error = string

datatype chan = Open | Closed

datatype panic = CloseOfClosedChannel | NilPointerDereference

text \<open>The generated REST client is not among the sources. The model keeps of a
  \<open>*ClientWithResponses\<close> whether it is nil and, if not, the server URL it was built for;
  of a response its \<open>StatusCode()\<close> and its parsed body (\<open>JSON200\<close> / \<open>JSON201\<close>, nil when
  absent), of which only \<open>HostRid\<close> is read.\<close>

datatype api_client = ClientWithResponses string

record Host =
  Host_HostRid :: string

type_synonym host_response = "nat \<times> Host option"

record HostCreateRequest =
  Hostname :: string
  IpAddress :: string
  OsName :: string
  OsVersion :: string

text \<open>\<open>config.Config\<close>: the two fields of its \<open>HostRegistration\<close> section that the
  services read and write.\<close>

record Config =
  SprinterURL :: string
  HostRid :: string

section \<open>Systemd monitor service\<close>

record SystemdMonitorService =
  mon_config :: Config
  mon_client :: "api_client option"
  mon_hostRid :: string
  mon_stopChan :: chan

definition NewSystemdMonitorService ::
  "Config \<Rightarrow> api_client option \<Rightarrow> string \<Rightarrow> SystemdMonitorService" where
  "NewSystemdMonitorService cfg apiClient hostRid =
     \<lparr>mon_config = cfg, mon_client = apiClient, mon_hostRid = hostRid, mon_stopChan = Open\<rparr>"

text \<open>\<open>Start\<close> returns nil on both paths; the model returns whether
  \<open>go s.monitorLoop()\<close> was executed.\<close>

definition mon_Start :: "SystemdMonitorService \<Rightarrow> bool" where
  "mon_Start s = (if mon_hostRid s = [] then False else True)"

definition mon_Stop :: "SystemdMonitorService \<Rightarrow> panic + SystemdMonitorService" where
  "mon_Stop s =
     (if mon_hostRid s \<noteq> [] then
        (case mon_stopChan s of
           Closed \<Rightarrow> Inl CloseOfClosedChannel
         | Open \<Rightarrow> Inr (s\<lparr>mon_stopChan := Closed\<rparr>))
      else Inr s)"

text \<open>What one call of \<open>getSystemdServices\<close> meets outside the program: whether
  \<open>exec.LookPath\<close> finds the binary, and what \<open>cmd.Output()\<close> gives: the standard
  output, or an error together with the captured standard error. Of the error the code
  asks whether it is an \<open>*exec.ExitError\<close> (and its exit code) and whether it is a
  permission error (\<open>os.ErrPermission\<close> or a message containing "permission denied").\<close>

datatype cmd_error = ExitError int | OtherError bool

record collector_env =
  LookPath_found :: bool
  cmd_Output :: "(cmd_error \<times> gostr) + gostr"

text \<open>The errors \<open>getSystemdServices\<close> returns, one constructor per \<open>fmt.Errorf\<close>.\<close>

datatype collect_error =
    SystemctlExited int gostr bool
  | SystemctlPermissionDenied
  | SystemctlFailedStderr gostr
  | SystemctlFailed

definition getSystemdServices :: "collector_env \<Rightarrow> collect_error + SystemdUnit list" where
  "getSystemdServices env =
     (if \<not> LookPath_found env then Inr []
      else
        (case cmd_Output env of
           Inl (err, stderr) \<Rightarrow>
             (let stderrStr = TrimSpace stderr in
              case err of
                ExitError exitCode \<Rightarrow> Inl (SystemctlExited exitCode stderrStr (exitCode = 1))
              | OtherError permission \<Rightarrow>
                  if permission then Inl SystemctlPermissionDenied
                  else if stderrStr \<noteq> [] then Inl (SystemctlFailedStderr stderrStr)
                  else Inl SystemctlFailed)
         | Inr output \<Rightarrow> Inr (parse_output output)))"

text \<open>What \<open>reportSystemdServices\<close> does that is visible outside: the log lines that
  matter here and the one API call.\<close>

datatype mon_event =
    LogCollectFailed collect_error
  | PutSystemdServices string "SystemdUnit list"
  | LogReportFailed "go_error + nat"
  | LogReported nat

definition reportSystemdServices ::
  "SystemdMonitorService \<Rightarrow> collector_env \<Rightarrow> (go_error + nat) \<Rightarrow> panic + mon_event list" where
  "reportSystemdServices s env put_response =
     (let (services, log1) =
            (case getSystemdServices env of
               Inl err \<Rightarrow> ([], [LogCollectFailed err])
             | Inr units \<Rightarrow> (units, []))
      in case mon_client s of
           None \<Rightarrow> Inl NilPointerDereference
         | Some c \<Rightarrow>
             (case put_response of
                Inl err \<Rightarrow>
                  Inr (log1 @ [PutSystemdServices (mon_hostRid s) services, LogReportFailed (Inl err)])
              | Inr status \<Rightarrow>
                  if status \<noteq> 200 then
                    Inr (log1 @ [PutSystemdServices (mon_hostRid s) services,
                                 LogReportFailed (Inr status)])
                  else
                    Inr (log1 @ [PutSystemdServices (mon_hostRid s) services,
                                 LogReported (length services)])))"

section \<open>Host registration service\<close>

record HostRegistrationService =
  config :: Config
  client :: "api_client option"
  hostRid :: string
  stopChan :: chan

text \<open>\<open>NewHostRegistrationService\<close>: \<open>new_client\<close> is what
  \<open>client.NewClientWithResponses\<close> returned (nil when it failed, which is only logged).\<close>

definition NewHostRegistrationService ::
  "Config \<Rightarrow> api_client option \<Rightarrow> HostRegistrationService" where
  "NewHostRegistrationService cfg new_client =
     \<lparr>config = cfg, client = new_client, hostRid = [], stopChan = Open\<rparr>"

definition GetHostRid :: "HostRegistrationService \<Rightarrow> string" where
  "GetHostRid s = hostRid s"

definition GetClient :: "HostRegistrationService \<Rightarrow> api_client option" where
  "GetClient s = client s"

definition Stop :: "HostRegistrationService \<Rightarrow> panic + HostRegistrationService" where
  "Stop s =
     (if SprinterURL (config s) \<noteq> [] then
        (case stopChan s of
           Closed \<Rightarrow> Inl CloseOfClosedChannel
         | Open \<Rightarrow> Inr (s\<lparr>stopChan := Closed\<rparr>))
      else Inr s)"

subsection \<open>Local address\<close>

text \<open>\<open>net.IP\<close> is a byte slice. \<open>To4\<close>, \<open>IsLoopback\<close> and the dotted-decimal
  \<open>String\<close> of an IPv4 address follow the Go library.\<close>

type_synonym IP = "8 word list"

definition isZeros :: "IP \<Rightarrow> bool" where
  "isZeros p = list_all (\<lambda>b. b = 0) p"

definition To4 :: "IP \<Rightarrow> IP option" where
  "To4 ip =
     (if length ip = 4 then Some ip
      else if length ip = 16 \<and> isZeros (take 10 ip) \<and> ip ! 10 = 255 \<and> ip ! 11 = 255
      then Some (drop 12 ip)
      else None)"

definition IPv6loopback :: IP where
  "IPv6loopback = [0, 0, 0, 0, 0, 0, 0, 0, 0, 0, 0, 0, 0, 0, 0, 1]"

definition IsLoopback :: "IP \<Rightarrow> bool" where
  "IsLoopback ip = (case To4 ip of Some ip4 \<Rightarrow> ip4 ! 0 = 127 | None \<Rightarrow> ip = IPv6loopback)"

definition digits :: string where
  "digits = ''0123456789''"

definition ubtoa :: "8 word \<Rightarrow> string" where
  "ubtoa b =
     (let v = unat b in
      if v < 10 then [digits ! v]
      else if v < 100 then [digits ! (v div 10), digits ! (v mod 10)]
      else [digits ! (v div 100), digits ! (v div 10 mod 10), digits ! (v mod 10)])"

definition String4 :: "IP \<Rightarrow> string" where
  "String4 ip4 =
     ubtoa (ip4 ! 0) @ ''.'' @ ubtoa (ip4 ! 1) @ ''.'' @ ubtoa (ip4 ! 2) @ ''.'' @ ubtoa (ip4 ! 3)"

text \<open>The \<open>for _, addr := range addrs\<close> loop of \<open>getLocalIP\<close> with the fallback after
  it. \<open>addr.String()\<close> is called only where \<open>addr.To4()\<close> is not nil, where it prints the
  four bytes of \<open>To4\<close>.\<close>

fun first_ipv4 :: "IP list \<Rightarrow> string" where
  "first_ipv4 [] = ''127.0.0.1''"
| "first_ipv4 (addr # addrs) =
     (case To4 addr of
        Some ip4 \<Rightarrow> if \<not> IsLoopback addr then String4 ip4 else first_ipv4 addrs
      | None \<Rightarrow> first_ipv4 addrs)"

text \<open>What the registration service meets outside the program during one \<open>Start\<close>:
  the operating system (\<open>os.Hostname\<close>, \<open>net.LookupIP\<close>, the outcome of \<open>getOSVersion\<close>,
  \<open>runtime.GOOS\<close>), and the inventory API's answers. (\<open>config.SaveConfig\<close> is called, but its error is
  only logged, so its answer is not part of the environment.)\<close>

record env =
  os_Hostname :: "go_error + string"
  net_LookupIP :: "string \<Rightarrow> go_error + IP list"
  os_version :: "go_error + string"
  GOOS :: string
  GetApiV1HostsHostRid :: "string \<Rightarrow> go_error + host_response"
  PostApiV1Hosts :: "HostCreateRequest \<Rightarrow> go_error + host_response"

definition getLocalIP :: "env \<Rightarrow> go_error + string" where
  "getLocalIP e =
     (case os_Hostname e of
        Inl err \<Rightarrow> Inl err
      | Inr hostname \<Rightarrow>
          (case net_LookupIP e hostname of
             Inl err \<Rightarrow> Inl err
           | Inr addrs \<Rightarrow> Inr (first_ipv4 addrs)))"

subsection \<open>Identity resolution\<close>

text \<open>The calls that leave the process, in the order made.\<close>

datatype effect =
    Lookup string
  | Create HostCreateRequest
  | Save Config string
  | GoStartHeartbeat

datatype reg_error =
    CheckExistenceFailed go_error
  | RegisterRequestFailed go_error
  | RegistrationStatus nat
  | NoHostData

datatype 'e result = OK | Error 'e | Panicked panic

text \<open>The request body of lines 129 to 141.\<close>

definition new_request :: "env \<Rightarrow> string \<Rightarrow> string \<Rightarrow> string \<Rightarrow> HostCreateRequest" where
  "new_request e hostname ipAddress osVersion =
     (let osName = (if GOOS e = ''darwin'' then ''macOS'' else GOOS e)
      in \<lparr>Hostname = hostname, IpAddress = ipAddress, OsName = osName, OsVersion = osVersion\<rparr>)"

text \<open>Lines 129 to 171 of \<open>registerHost\<close>: the creation of a new host. \<open>made\<close> holds the
  calls already made.\<close>

definition create_host ::
  "env \<Rightarrow> HostRegistrationService \<Rightarrow> string \<Rightarrow> string \<Rightarrow> string \<Rightarrow> effect list \<Rightarrow>
   reg_error result \<times> HostRegistrationService \<times> effect list" where
  "create_host e s hostname ipAddress osVersion made =
     (let reqBody = new_request e hostname ipAddress osVersion
      in case client s of
           None \<Rightarrow> (Panicked NilPointerDereference, s, made)
         | Some c \<Rightarrow>
             (case PostApiV1Hosts e reqBody of
                Inl err \<Rightarrow> (Error (RegisterRequestFailed err), s, made @ [Create reqBody])
              | Inr (status, json201) \<Rightarrow>
                  if status \<noteq> 201 then (Error (RegistrationStatus status), s, made @ [Create reqBody])
                  else
                    (case json201 of
                       None \<Rightarrow> (Error NoHostData, s, made @ [Create reqBody])
                     | Some host \<Rightarrow>
                         (let s1 = s\<lparr>hostRid := Host_HostRid host\<rparr>;
                              s2 = s1\<lparr>config := (config s1)\<lparr>HostRid := hostRid s1\<rparr>\<rparr>
                          in (OK, s2,
                              made @ [Create reqBody, Save (config s2) ''config/config.yaml''])))))"

definition registerHost ::
  "env \<Rightarrow> HostRegistrationService \<Rightarrow> string \<Rightarrow> string \<Rightarrow> string \<Rightarrow>
   reg_error result \<times> HostRegistrationService \<times> effect list" where
  "registerHost e s hostname ipAddress osVersion =
     (if HostRid (config s) \<noteq> [] then
        (let rid = HostRid (config s) in
         case client s of
           None \<Rightarrow> (Panicked NilPointerDereference, s, [])
         | Some c \<Rightarrow>
             (case GetApiV1HostsHostRid e rid of
                Inl err \<Rightarrow> (Error (CheckExistenceFailed err), s, [Lookup rid])
              | Inr (status, json200) \<Rightarrow>
                  if status = 200 \<and> json200 \<noteq> None then (OK, s\<lparr>hostRid := rid\<rparr>, [Lookup rid])
                  else create_host e s hostname ipAddress osVersion [Lookup rid]))
      else create_host e s hostname ipAddress osVersion [])"

subsection \<open>Start\<close>

datatype start_error =
    HostnameFailed go_error
  | IPAddressFailed go_error
  | RegisterFailed reg_error

definition Start ::
  "env \<Rightarrow> HostRegistrationService \<Rightarrow>
   start_error result \<times> HostRegistrationService \<times> effect list" where
  "Start e s =
     (if SprinterURL (config s) = [] then (OK, s, [])
      else
        (case os_Hostname e of
           Inl err \<Rightarrow> (Error (HostnameFailed err), s, [])
         | Inr hostname \<Rightarrow>
             (case getLocalIP e of
                Inl err \<Rightarrow> (Error (IPAddressFailed err), s, [])
              | Inr ipAddress \<Rightarrow>
                  (let osVersion = (case os_version e of Inl err \<Rightarrow> ''Unknown'' | Inr v \<Rightarrow> v)
                   in case registerHost e s hostname ipAddress osVersion of
                        (OK, s', effs) \<Rightarrow> (OK, s', effs @ [GoStartHeartbeat])
                      | (Error err, s', effs) \<Rightarrow> (Error (RegisterFailed err), s', effs)
                      | (Panicked p, s', effs) \<Rightarrow> (Panicked p, s', effs)))))"

section \<open>Heartbeat loop\<close>

datatype hb_error = HeartbeatRequestFailed go_error | HeartbeatStatus nat

datatype hb_event =
    Beat string
  | LogHeartbeatFailed hb_error
  | LogHeartbeatSent

text \<open>\<open>sendHeartbeat\<close>; \<open>response\<close> is what the API call gives this time.\<close>

definition sendHeartbeat ::
  "HostRegistrationService \<Rightarrow> (go_error + nat) \<Rightarrow> hb_error result \<times> hb_event list" where
  "sendHeartbeat s response =
     (case client s of
        None \<Rightarrow> (Panicked NilPointerDereference, [])
      | Some c \<Rightarrow>
          (case response of
             Inl err \<Rightarrow> (Error (HeartbeatRequestFailed err), [Beat (hostRid s)])
           | Inr status \<Rightarrow>
               if status \<noteq> 200 then (Error (HeartbeatStatus status), [Beat (hostRid s)])
               else (OK, [Beat (hostRid s), LogHeartbeatSent])))"

text \<open>One \<open>select\<close> of a periodic loop receives from the ticker or from the stop
  channel. A run of the loop is the sequence of what its selects received, each tick with
  what the outside answers during it. A loop that has consumed the whole sequence
  without returning is still waiting in its \<open>select\<close>.\<close>

datatype 'a selected = TickerC 'a | StopChan

datatype loop_status = Waiting | Returned | Crashed panic

fun startHeartbeat ::
  "HostRegistrationService \<Rightarrow> (go_error + nat) selected list \<Rightarrow> loop_status \<times> hb_event list" where
  "startHeartbeat s [] = (Waiting, [])"
| "startHeartbeat s (StopChan # rest) = (Returned, [])"
| "startHeartbeat s (TickerC response # rest) =
     (case sendHeartbeat s response of
        (Panicked p, evs) \<Rightarrow> (Crashed p, evs)
      | (Error err, evs) \<Rightarrow>
          (let (st, evs') = startHeartbeat s rest in (st, evs @ [LogHeartbeatFailed err] @ evs'))
      | (OK, evs) \<Rightarrow>
          (let (st, evs') = startHeartbeat s rest in (st, evs @ evs')))"

section \<open>Monitor loop\<close>

fun monitor_select ::
  "SystemdMonitorService \<Rightarrow> (collector_env \<times> (go_error + nat)) selected list \<Rightarrow>
   loop_status \<times> mon_event list" where
  "monitor_select s [] = (Waiting, [])"
| "monitor_select s (StopChan # rest) = (Returned, [])"
| "monitor_select s (TickerC (cenv, put_response) # rest) =
     (case reportSystemdServices s cenv put_response of
        Inl p \<Rightarrow> (Crashed p, [])
      | Inr evs \<Rightarrow> (let (st, evs') = monitor_select s rest in (st, evs @ evs')))"

text \<open>\<open>monitorLoop\<close> reports once at once, then selects.\<close>

definition monitorLoop ::
  "SystemdMonitorService \<Rightarrow> collector_env \<times> (go_error + nat) \<Rightarrow>
   (collector_env \<times> (go_error + nat)) selected list \<Rightarrow> loop_status \<times> mon_event list" where
  "monitorLoop s first rest =
     (case reportSystemdServices s (fst first) (snd first) of
        Inl p \<Rightarrow> (Crashed p, [])
      | Inr evs \<Rightarrow> (let (st, evs') = monitor_select s rest in (st, evs @ evs')))"

section \<open>Startup, polling variant\<close>

text \<open>The goroutine of \<open>main\<close> that waits for the host RID. \<open>once\<close> is the
  \<open>sync.Once\<close> \<open>systemdStarted\<close>; \<open>monitors\<close> collects the monitor services whose
  \<open>monitorLoop\<close> goroutine has been launched.\<close>

record watcher =
  once :: bool
  monitors :: "SystemdMonitorService list"

definition Once_Do :: "(watcher \<Rightarrow> watcher) \<Rightarrow> watcher \<Rightarrow> watcher" where
  "Once_Do f w = (if once w then w else (f w)\<lparr>once := True\<rparr>)"

text \<open>The function handed to \<open>systemdStarted.Do\<close>.\<close>

definition start_monitor ::
  "Config \<Rightarrow> HostRegistrationService \<Rightarrow> string \<Rightarrow> watcher \<Rightarrow> watcher" where
  "start_monitor cfg hostRegService rid w =
     (case GetClient hostRegService of
        None \<Rightarrow> w
      | Some apiClient \<Rightarrow>
          (let systemdMonitor = NewSystemdMonitorService cfg (Some apiClient) rid
           in if mon_Start systemdMonitor then w\<lparr>monitors := monitors w @ [systemdMonitor]\<rparr>
              else w))"

text \<open>The \<open>for\<close> loop of the goroutine. Each element of the list is the registration
  service as one iteration finds it; the loop sleeps between iterations. The result says
  whether the goroutine has returned (\<open>True\<close>) or is still polling.\<close>

fun poll :: "Config \<Rightarrow> watcher \<Rightarrow> HostRegistrationService list \<Rightarrow> watcher \<times> bool" where
  "poll cfg w [] = (w, False)"
| "poll cfg w (hostRegService # later) =
     (let rid = GetHostRid hostRegService in
      if rid \<noteq> [] then (Once_Do (start_monitor cfg hostRegService rid) w, True)
      else poll cfg w later)"

text \<open>\<open>main\<close> up to the goroutine: the service is created and started (a failure is
  only logged), and the goroutine then polls it \<open>n\<close> times.\<close>

definition main_polling ::
  "env \<Rightarrow> Config \<Rightarrow> api_client option \<Rightarrow> nat \<Rightarrow> watcher \<times> bool" where
  "main_polling e cfg new_client n =
     (let hostRegService = NewHostRegistrationService cfg new_client;
          (r, started, effs) = Start e hostRegService
      in poll (config started) \<lparr>once = False, monitors = []\<rparr> (replicate n started))"

section \<open>Notions used to state the properties\<close>

fun is_Lookup :: "effect \<Rightarrow> bool" where
  "is_Lookup (Lookup rid) = True"
| "is_Lookup other = False"

fun is_Create :: "effect \<Rightarrow> bool" where
  "is_Create (Create req) = True"
| "is_Create other = False"

fun is_Save :: "effect \<Rightarrow> bool" where
  "is_Save (Save cfg path) = True"
| "is_Save other = False"

fun is_Put :: "mon_event \<Rightarrow> bool" where
  "is_Put (PutSystemdServices rid units) = True"
| "is_Put other = False"

fun is_Beat :: "hb_event \<Rightarrow> bool" where
  "is_Beat (Beat rid) = True"
| "is_Beat other = False"

fun is_LogHeartbeatFailed :: "hb_event \<Rightarrow> bool" where
  "is_LogHeartbeatFailed (LogHeartbeatFailed err) = True"
| "is_LogHeartbeatFailed other = False"

text \<open>A heartbeat answer that \<open>sendHeartbeat\<close> turns into an error.\<close>

fun beat_failed :: "go_error + nat \<Rightarrow> bool" where
  "beat_failed (Inl err) = True"
| "beat_failed (Inr status) = (status \<noteq> 200)"

text \<open>The answers of the ticks that a loop receives before its first receive from the
  stop channel, and whether it receives from the stop channel at all.\<close>

fun ticks_before_stop :: "'a selected list \<Rightarrow> 'a list" where
  "ticks_before_stop [] = []"
| "ticks_before_stop (StopChan # rest) = []"
| "ticks_before_stop (TickerC a # rest) = a # ticks_before_stop rest"

fun stop_received :: "'a selected list \<Rightarrow> bool" where
  "stop_received [] = False"
| "stop_received (StopChan # rest) = True"
| "stop_received (TickerC a # rest) = stop_received rest"

text \<open>Two calls of \<open>Stop\<close> on the same service, one after the other.\<close>

definition Stop_twice :: "HostRegistrationService \<Rightarrow> panic + HostRegistrationService" where
  "Stop_twice s = (case Stop s of Inl p \<Rightarrow> Inl p | Inr s1 \<Rightarrow> Stop s1)"

definition mon_Stop_twice :: "SystemdMonitorService \<Rightarrow> panic + SystemdMonitorService" where
  "mon_Stop_twice s = (case mon_Stop s of Inl p \<Rightarrow> Inl p | Inr s1 \<Rightarrow> mon_Stop s1)"

text \<open>An address that \<open>getLocalIP\<close> accepts.\<close>

definition usable_ipv4 :: "IP \<Rightarrow> bool" where
  "usable_ipv4 addr \<longleftrightarrow> \<not> IsLoopback addr \<and> To4 addr \<noteq> None"

subsection \<open>Concrete services and environments\<close>

definition somana_client :: api_client where
  "somana_client = ClientWithResponses ''http://somana:8080''"

definition fresh_config :: Config where
  "fresh_config = \<lparr>SprinterURL = ''http://somana:8080'', HostRid = []\<rparr>"

definition persisted_config :: Config where
  "persisted_config = \<lparr>SprinterURL = ''http://somana:8080'', HostRid = ''h1''\<rparr>"

definition unconfigured :: Config where
  "unconfigured = \<lparr>SprinterURL = [], HostRid = []\<rparr>"

text \<open>A host whose name resolves to a loopback address, an IPv6 address and 10.0.0.5,
  and an inventory that knows every identifier asked for and names new hosts \<open>h1\<close>.\<close>

definition box1 :: env where
  "box1 =
     \<lparr>os_Hostname = Inr ''box1'',
      net_LookupIP =
        (\<lambda>name. Inr [[127, 0, 0, 1], [0, 0, 0, 0, 0, 0, 0, 0, 0, 0, 0, 0, 0, 0, 0, 1],
                         [10, 0, 0, 5]]),
      os_version = Inl ''no os-release'',
      GOOS = ''linux'',
      GetApiV1HostsHostRid = (\<lambda>rid. Inr (200, Some \<lparr>Host_HostRid = rid\<rparr>)),
      PostApiV1Hosts = (\<lambda>req. Inr (201, Some \<lparr>Host_HostRid = ''h1''\<rparr>))\<rparr>"

text \<open>The same host while the inventory cannot be reached.\<close>

definition box1_offline :: env where
  "box1_offline =
     box1\<lparr>GetApiV1HostsHostRid := (\<lambda>rid. Inl ''connection refused''),
          PostApiV1Hosts := (\<lambda>req. Inl ''connection refused'')\<rparr>"

text \<open>The same host while its own name does not resolve.\<close>

definition box1_unresolvable :: env where
  "box1_unresolvable = box1\<lparr>net_LookupIP := (\<lambda>name. Inl ''no such host'')\<rparr>"

text \<open>The same host when the inventory no longer knows the persisted identifier and
  names the new host \<open>h2\<close>.\<close>

definition box1_forgotten :: env where
  "box1_forgotten =
     box1\<lparr>GetApiV1HostsHostRid := (\<lambda>rid. Inr (404, None)),
          PostApiV1Hosts := (\<lambda>req. Inr (201, Some \<lparr>Host_HostRid = ''h2''\<rparr>))\<rparr>"

text \<open>The same host when the inventory knows no identifier asked for and answers a
  creation with a body whose identifier is empty.\<close>

definition box1_nameless :: env where
  "box1_nameless =
     box1\<lparr>GetApiV1HostsHostRid := (\<lambda>rid. Inr (404, None)),
          PostApiV1Hosts := (\<lambda>req. Inr (201, Some \<lparr>Host_HostRid = []\<rparr>))\<rparr>"

text \<open>The same host when only its loopback address is known.\<close>

definition box1_loopback_only :: env where
  "box1_loopback_only = box1\<lparr>net_LookupIP := (\<lambda>name. Inr [[127, 0, 0, 1]])\<rparr>"

definition registered_service :: HostRegistrationService where
  "registered_service =
     \<lparr>config = persisted_config, client = Some somana_client, hostRid = ''h1'', stopChan = Open\<rparr>"

definition running_monitor :: SystemdMonitorService where
  "running_monitor = NewSystemdMonitorService persisted_config (Some somana_client) ''h1''"

section \<open>Unit collector: properties of the text primitives\<close>

lemma fields_from_word:
  "list_all (\<lambda>c. \<not> isSpace c) w \<Longrightarrow> fields_from cur (w @ rest) = fields_from (cur @ w) rest"
  by (induction w arbitrary: cur) simp_all

lemma fields_from_blank:
  "list_all isSpace sp \<Longrightarrow> fields_from [] (sp @ rest) = fields_from [] rest"
  by (induction sp) simp_all

lemma fields_from_blank_after:
  "list_all isSpace sp \<Longrightarrow> sp \<noteq> [] \<Longrightarrow> cur \<noteq> [] \<Longrightarrow>
   fields_from cur (sp @ rest) = cur # fields_from [] rest"
  by (cases sp) (simp_all add: fields_from_blank)


text \<open>A word followed by a run of white space is the first field, whatever the length
  of the run; white space in front is skipped; a last word needs no white space after it.\<close>

lemma Fields_word_blank:
  "w \<noteq> [] \<Longrightarrow> list_all (\<lambda>c. \<not> isSpace c) w \<Longrightarrow> sp \<noteq> [] \<Longrightarrow> list_all isSpace sp \<Longrightarrow>
   Fields (w @ sp @ rest) = w # Fields rest"
  by (simp add: Fields_def fields_from_word fields_from_blank_after)

lemma Fields_last_word:
  "w \<noteq> [] \<Longrightarrow> list_all (\<lambda>c. \<not> isSpace c) w \<Longrightarrow> Fields w = [w]"
  using fields_from_word[of w "[]" "[]"] by (simp add: Fields_def)


text \<open>Every field is non-empty and free of white space.\<close>

lemma fields_from_shape:
  "list_all (\<lambda>c. \<not> isSpace c) cur \<Longrightarrow>
   list_all (\<lambda>f. f \<noteq> [] \<and> list_all (\<lambda>c. \<not> isSpace c) f) (fields_from cur s)"
  by (induction s arbitrary: cur) simp_all

lemma Fields_shape: "list_all (\<lambda>f. f \<noteq> [] \<and> list_all (\<lambda>c. \<not> isSpace c) f) (Fields s)"
  by (simp add: Fields_def fields_from_shape)


section \<open>Unit collector: the scan is line by line\<close>

lemma parse_line_append: "parse_line services line = services @ parse_line [] line"
  by (simp add: parse_line_def Let_def)

lemma foldl_parse_line: "foldl parse_line acc ls = acc @ foldl parse_line [] ls"
proof (induction ls arbitrary: acc)
  case Nil
  then show ?case by simp
next
  case (Cons l ls)
  have "foldl parse_line acc (l # ls) = foldl parse_line (parse_line acc l) ls" by simp
  also have "\<dots> = parse_line acc l @ foldl parse_line [] ls" by (rule Cons.IH)
  also have "\<dots> = acc @ parse_line [] l @ foldl parse_line [] ls"
    using parse_line_append[of acc l] by simp
  also have "\<dots> = acc @ foldl parse_line (parse_line [] l) ls"
    using Cons.IH[of "parse_line [] l"] by simp
  finally show ?case by simp
qed

lemma parse_lines_concat: "parse_lines ls = concat (map (parse_line []) ls)"
proof (induction ls)
  case Nil
  then show ?case by (simp add: parse_lines_def)
next
  case (Cons l ls)
  have "parse_lines (l # ls) = foldl parse_line (parse_line [] l) ls"
    by (simp add: parse_lines_def)
  also have "\<dots> = parse_line [] l @ parse_lines ls"
    using foldl_parse_line[of "parse_line [] l" ls] by (simp add: parse_lines_def)
  finally show ?case using Cons.IH by simp
qed

lemma parse_output_concat:
  "parse_output output = concat (map (parse_line []) (Split_nl (TrimSpace output)))"
  by (simp add: parse_output_def parse_lines_concat)

text \<open>The two lines of the end-to-end scenario of the specification.\<close>

lemma parse_output_scenario:
  "parse_output (runes ''sshd.service loaded active running OpenSSH server'' @ [10] @
                 runes ''cron.service loaded active running'' @ [10]) =
     [\<lparr>Unit = runes ''sshd.service'', Load = runes ''loaded'', Active = runes ''active'',
       Sub = runes ''running'', Description = runes ''OpenSSH server''\<rparr>,
      \<lparr>Unit = runes ''cron.service'', Load = runes ''loaded'', Active = runes ''active'',
       Sub = runes ''running'', Description = []\<rparr>]"
  by (simp add: parse_output_def parse_lines_def parse_line_def mkUnit_def runes_def
      TrimSpace_def Fields_def isSpace_def Let_def)

section \<open>Startup, polling variant: properties\<close>

lemma Once_Do_once: "once (Once_Do f w) = True"
  by (simp add: Once_Do_def)

lemma Once_Do_done: "once w \<Longrightarrow> Once_Do f w = w"
  by (simp add: Once_Do_def)

lemma start_monitor_monitors:
  "monitors (start_monitor cfg s rid w) = monitors w \<or>
   (rid \<noteq> [] \<and> monitors (start_monitor cfg s rid w) =
      monitors w @ [NewSystemdMonitorService cfg (GetClient s) rid])"
  by (auto simp: start_monitor_def mon_Start_def NewSystemdMonitorService_def Let_def
      split: option.splits)

lemma poll_once_done: "once w \<Longrightarrow> fst (poll cfg w obs) = w"
  by (induction obs) (simp_all add: Let_def Once_Do_done)

lemma poll_returned_once: "snd (poll cfg w obs) \<Longrightarrow> once (fst (poll cfg w obs))"
  by (induction obs) (simp_all add: Let_def Once_Do_once split: if_splits)

lemma poll_monitors:
  "\<exists>new. monitors (fst (poll cfg w obs)) = monitors w @ new \<and> length new \<le> 1 \<and>
     [] \<notin> mon_hostRid ` set new"
proof (induction obs)
  case Nil
  then show ?case by simp
next
  case (Cons s obs)
  show ?case
  proof (cases "GetHostRid s = []")
    case True
    then show ?thesis using Cons.IH by (simp add: Let_def)
  next
    case False
    have eq: "fst (poll cfg w (s # obs)) = Once_Do (start_monitor cfg s (GetHostRid s)) w"
      using False by (simp add: Let_def)
    show ?thesis
    proof (cases "once w")
      case True
      then show ?thesis unfolding eq by (simp add: Once_Do_done)
    next
      case nonce: False
      from start_monitor_monitors[of cfg s "GetHostRid s" w]
      show ?thesis unfolding eq using nonce False
        by (auto simp: Once_Do_def NewSystemdMonitorService_def)
    qed
  qed
qed

text \<open>
  Claim C1. Under the polling startup variant the monitor is started at most once and
  never with an empty host RID, whatever the goroutine observes at its polls: for every
  sequence of observations, the monitors launched from the initial state (latch unused,
  no monitor) are at most one and none has an empty host RID; once the goroutine has
  returned, polling again (with any observations) launches nothing more; and the same
  holds of \<open>main\<close> itself, which polls the service it has started.
\<close>

theorem poll_starts_monitor_at_most_once:
  "length (monitors (fst (poll cfg \<lparr>once = False, monitors = []\<rparr> obs))) \<le> 1 \<and>
   [] \<notin> mon_hostRid ` set (monitors (fst (poll cfg \<lparr>once = False, monitors = []\<rparr> obs))) \<and>
   (snd (poll cfg \<lparr>once = False, monitors = []\<rparr> obs) \<longrightarrow>
      monitors (fst (poll cfg' (fst (poll cfg \<lparr>once = False, monitors = []\<rparr> obs)) obs')) =
      monitors (fst (poll cfg \<lparr>once = False, monitors = []\<rparr> obs))) \<and>
   length (monitors (fst (main_polling e cfg new_client n))) \<le> 1 \<and>
   [] \<notin> mon_hostRid ` set (monitors (fst (main_polling e cfg new_client n)))"
proof -
  let ?w0 = "\<lparr>once = False, monitors = []\<rparr>"
  have a: "length (monitors (fst (poll c ?w0 os))) \<le> 1 \<and>
           [] \<notin> mon_hostRid ` set (monitors (fst (poll c ?w0 os)))" for c os
    using poll_monitors[of c ?w0 os] by auto
  have b: "monitors (fst (poll cfg' (fst (poll cfg ?w0 obs)) obs')) =
           monitors (fst (poll cfg ?w0 obs))" if "snd (poll cfg ?w0 obs)"
    using poll_returned_once[OF that] by (simp add: poll_once_done)
  have c: "\<exists>c os. main_polling e cfg new_client n = poll c ?w0 os"
    by (auto simp: main_polling_def Let_def split: prod.splits)
  then obtain c' os' where m: "main_polling e cfg new_client n = poll c' ?w0 os'" by blast
  show ?thesis using a[of cfg obs] a[of c' os'] b unfolding m by simp
qed

text \<open>Three polls: the first finds no host RID, the next two find \<open>h1\<close>. The goroutine
  returns, one monitor runs for \<open>h1\<close>, and a further poll adds none.\<close>

theorem poll_starts_monitor_at_most_once_witness:
  "snd (poll persisted_config \<lparr>once = False, monitors = []\<rparr>
          [NewHostRegistrationService persisted_config (Some somana_client),
           registered_service, registered_service]) \<and>
   monitors (fst (poll persisted_config
      (fst (poll persisted_config \<lparr>once = False, monitors = []\<rparr>
          [NewHostRegistrationService persisted_config (Some somana_client),
           registered_service, registered_service]))
      [registered_service])) = [running_monitor]"
proof -
  let ?obs = "[NewHostRegistrationService persisted_config (Some somana_client),
               registered_service, registered_service]"
  let ?w0 = "\<lparr>once = False, monitors = []\<rparr>"
  have r: "snd (poll persisted_config ?w0 ?obs)"
    by (simp add: NewHostRegistrationService_def registered_service_def GetHostRid_def Let_def)
  have m: "monitors (fst (poll persisted_config ?w0 ?obs)) = [running_monitor]"
    by (simp add: NewHostRegistrationService_def registered_service_def GetHostRid_def
        Once_Do_def start_monitor_def GetClient_def mon_Start_def running_monitor_def
        NewSystemdMonitorService_def Let_def)
  from poll_starts_monitor_at_most_once[of persisted_config ?obs persisted_config
      "[registered_service]"] r m
  show ?thesis by simp
qed

section \<open>Identity resolution: properties\<close>

text \<open>
  Claim C2. When the config holds a persisted identifier and the lookup of it answers
  200 with a host body, \<open>registerHost\<close> adopts that identifier and returns without
  error; its only call is the lookup (no create call, no config save) and the config is
  unchanged. Resolving again, in the same process or in a new service built from the
  unchanged config (a restart), with the lookup still successful, gives the same
  identifier, again with the lookup as the only call.
\<close>

theorem registerHost_reuse:
  assumes "HostRid (config s) = rid" "rid \<noteq> []" "client s = Some c"
    "GetApiV1HostsHostRid e rid = Inr (200, Some h)"
    "GetApiV1HostsHostRid e' rid = Inr (200, Some h')"
  shows "registerHost e s hostname ipAddress osVersion = (OK, s\<lparr>hostRid := rid\<rparr>, [Lookup rid]) \<and>
         registerHost e' (s\<lparr>hostRid := rid\<rparr>) hostname' ipAddress' osVersion' =
           (OK, s\<lparr>hostRid := rid\<rparr>, [Lookup rid]) \<and>
         registerHost e' (NewHostRegistrationService (config (s\<lparr>hostRid := rid\<rparr>)) (client s))
             hostname' ipAddress' osVersion' =
           (OK, (NewHostRegistrationService (config s) (client s))\<lparr>hostRid := rid\<rparr>, [Lookup rid])"
  using assms by (simp add: registerHost_def Let_def NewHostRegistrationService_def)

theorem registerHost_reuse_witness:
  "registerHost box1 (NewHostRegistrationService persisted_config (Some somana_client))
     ''box1'' ''10.0.0.5'' ''Unknown'' =
   (OK, registered_service, [Lookup ''h1'']) \<and>
   registerHost box1 registered_service ''box1'' ''10.0.0.5'' ''Unknown'' =
   (OK, registered_service, [Lookup ''h1''])"
proof -
  let ?s = "NewHostRegistrationService persisted_config (Some somana_client)"
  have a: "HostRid (config ?s) = ''h1''"
    by (simp add: NewHostRegistrationService_def persisted_config_def)
  have b: "''h1'' \<noteq> ([] :: string)" by simp
  have c: "client ?s = Some somana_client"
    by (simp add: NewHostRegistrationService_def)
  have d: "GetApiV1HostsHostRid box1 ''h1'' = Inr (200, Some \<lparr>Host_HostRid = ''h1''\<rparr>)"
    by (simp add: box1_def)
  have e: "?s\<lparr>hostRid := ''h1''\<rparr> = registered_service"
    by (simp add: NewHostRegistrationService_def registered_service_def)
  show ?thesis
    using registerHost_reuse[OF a b c d d, of "''box1''" "''10.0.0.5''" "''Unknown''"
        "''box1''" "''10.0.0.5''" "''Unknown''"]
    unfolding e by simp
qed

lemma create_host_facts:
  assumes "client s = Some c"
  shows "filter is_Create (snd (snd (create_host e s hn ip osv made))) =
           filter is_Create made @ [Create (new_request e hn ip osv)]"
    and "(fst (create_host e s hn ip osv made) = OK) =
           (\<exists>h. PostApiV1Hosts e (new_request e hn ip osv) = Inr (201, Some h))"
    and "PostApiV1Hosts e (new_request e hn ip osv) = Inr (201, Some h) \<Longrightarrow>
           create_host e s hn ip osv made =
             (OK, s\<lparr>hostRid := Host_HostRid h, config := (config s)\<lparr>HostRid := Host_HostRid h\<rparr>\<rparr>,
              made @ [Create (new_request e hn ip osv),
                      Save ((config s)\<lparr>HostRid := Host_HostRid h\<rparr>) ''config/config.yaml''])"
    and "\<not> (\<exists>h. PostApiV1Hosts e (new_request e hn ip osv) = Inr (201, Some h)) \<Longrightarrow>
           (\<exists>err. fst (create_host e s hn ip osv made) = Error err) \<and>
           fst (snd (create_host e s hn ip osv made)) = s \<and>
           filter is_Save (snd (snd (create_host e s hn ip osv made))) = filter is_Save made"
  using assms
  by (auto simp: create_host_def Let_def split: sum.splits option.splits prod.splits)

text \<open>
  Claim C3, as stated: after the one create call, a response that has the created status
  but lacks the identifier yields an error and no identifier is assigned. It does not:
  the code tests the status and whether the answer carries a host body (\<open>JSON201\<close> not
  nil), never the identifier inside the body. A 201 answer whose body has an empty
  identifier is taken as a success: the host RID and the persisted field are set to the
  empty string and the config is saved, also over a persisted identifier that the
  inventory no longer knew.
\<close>

theorem registerHost_create_counterexample:
  "registerHost box1_nameless (NewHostRegistrationService fresh_config (Some somana_client))
     ''box1'' ''10.0.0.5'' ''Unknown'' =
     (OK, NewHostRegistrationService fresh_config (Some somana_client),
      [Create \<lparr>Hostname = ''box1'', IpAddress = ''10.0.0.5'', OsName = ''linux'',
               OsVersion = ''Unknown''\<rparr>,
       Save fresh_config ''config/config.yaml'']) \<and>
   registerHost box1_nameless (NewHostRegistrationService persisted_config (Some somana_client))
     ''box1'' ''10.0.0.5'' ''Unknown'' =
     (OK, NewHostRegistrationService fresh_config (Some somana_client),
      [Lookup ''h1'',
       Create \<lparr>Hostname = ''box1'', IpAddress = ''10.0.0.5'', OsName = ''linux'',
               OsVersion = ''Unknown''\<rparr>,
       Save fresh_config ''config/config.yaml''])"
  by (simp add: registerHost_def create_host_def new_request_def box1_nameless_def box1_def
      NewHostRegistrationService_def fresh_config_def persisted_config_def Let_def)

text \<open>
  Claim C3, amended. When the config holds no persisted identifier, or the lookup of it
  answered without error but not with 200 and a host body, one call of \<open>registerHost\<close>
  makes exactly one create call, with the request built from the local information. It
  returns without error if and only if the create call answers 201 with a host body;
  then the identifier that body carries is the resolved host RID, is stored in the
  config's persisted field, and the config is saved once. In every other case (transport
  error, another status, no host body) it returns an error, the service and its config
  are unchanged and nothing is saved.
\<close>

theorem registerHost_create:
  assumes "client s = Some c"
    and "HostRid (config s) = [] \<or>
         (\<exists>status body. GetApiV1HostsHostRid e (HostRid (config s)) = Inr (status, body) \<and>
            \<not> (status = 200 \<and> body \<noteq> None))"
  shows "filter is_Create (snd (snd (registerHost e s hn ip osv))) =
           [Create (new_request e hn ip osv)] \<and>
         ((fst (registerHost e s hn ip osv) = OK) =
            (\<exists>h. PostApiV1Hosts e (new_request e hn ip osv) = Inr (201, Some h))) \<and>
         (\<forall>h. PostApiV1Hosts e (new_request e hn ip osv) = Inr (201, Some h) \<longrightarrow>
            hostRid (fst (snd (registerHost e s hn ip osv))) = Host_HostRid h \<and>
            HostRid (config (fst (snd (registerHost e s hn ip osv)))) = Host_HostRid h \<and>
            filter is_Save (snd (snd (registerHost e s hn ip osv))) =
              [Save ((config s)\<lparr>HostRid := Host_HostRid h\<rparr>) ''config/config.yaml'']) \<and>
         (\<not> (\<exists>h. PostApiV1Hosts e (new_request e hn ip osv) = Inr (201, Some h)) \<longrightarrow>
            (\<exists>err. fst (registerHost e s hn ip osv) = Error err) \<and>
            fst (snd (registerHost e s hn ip osv)) = s \<and>
            filter is_Save (snd (snd (registerHost e s hn ip osv))) = [])"
proof -
  have "registerHost e s hn ip osv = create_host e s hn ip osv [] \<or>
        registerHost e s hn ip osv = create_host e s hn ip osv [Lookup (HostRid (config s))]"
    using assms by (auto simp: registerHost_def Let_def)
  then obtain made where
    r: "registerHost e s hn ip osv = create_host e s hn ip osv made"
    and m: "filter is_Create made = []" "filter is_Save made = []"
    by fastforce
  show ?thesis
    unfolding r
    using create_host_facts[OF assms(1), where made = made and e = e and hn = hn and ip = ip
        and osv = osv] m
    by auto
qed

text \<open>A first registration that succeeds, a registration after the inventory has
  forgotten the persisted identifier, and a first registration while the inventory is
  unreachable.\<close>

theorem registerHost_create_witness:
  "fst (registerHost box1 (NewHostRegistrationService fresh_config (Some somana_client))
          ''box1'' ''10.0.0.5'' ''Unknown'') = OK \<and>
   hostRid (fst (snd (registerHost box1
          (NewHostRegistrationService fresh_config (Some somana_client))
          ''box1'' ''10.0.0.5'' ''Unknown''))) = ''h1'' \<and>
   filter is_Save (snd (snd (registerHost box1
          (NewHostRegistrationService fresh_config (Some somana_client))
          ''box1'' ''10.0.0.5'' ''Unknown''))) =
     [Save persisted_config ''config/config.yaml''] \<and>
   HostRid (config (fst (snd (registerHost box1_forgotten
          (NewHostRegistrationService persisted_config (Some somana_client))
          ''box1'' ''10.0.0.5'' ''Unknown'')))) = ''h2'' \<and>
   fst (snd (registerHost box1_offline
          (NewHostRegistrationService fresh_config (Some somana_client))
          ''box1'' ''10.0.0.5'' ''Unknown'')) =
     NewHostRegistrationService fresh_config (Some somana_client) \<and>
   filter is_Create (snd (snd (registerHost box1_offline
          (NewHostRegistrationService fresh_config (Some somana_client))
          ''box1'' ''10.0.0.5'' ''Unknown''))) =
     [Create \<lparr>Hostname = ''box1'', IpAddress = ''10.0.0.5'', OsName = ''linux'',
              OsVersion = ''Unknown''\<rparr>]"
proof -
  let ?fresh = "NewHostRegistrationService fresh_config (Some somana_client)"
  let ?old = "NewHostRegistrationService persisted_config (Some somana_client)"
  have cf: "client ?fresh = Some somana_client" and co: "client ?old = Some somana_client"
    by (simp_all add: NewHostRegistrationService_def)
  have empty: "HostRid (config ?fresh) = []"
    by (simp add: NewHostRegistrationService_def fresh_config_def)
  have b1: "HostRid (config ?fresh) = [] \<or>
         (\<exists>status body. GetApiV1HostsHostRid box1 (HostRid (config ?fresh)) = Inr (status, body) \<and>
            \<not> (status = 200 \<and> body \<noteq> None))"
    using empty by simp
  have b2: "HostRid (config ?old) = [] \<or>
         (\<exists>status body. GetApiV1HostsHostRid box1_forgotten (HostRid (config ?old)) =
            Inr (status, body) \<and> \<not> (status = 200 \<and> body \<noteq> None))"
    by (simp add: box1_forgotten_def)
  have b3: "HostRid (config ?fresh) = [] \<or>
         (\<exists>status body. GetApiV1HostsHostRid box1_offline (HostRid (config ?fresh)) =
            Inr (status, body) \<and> \<not> (status = 200 \<and> body \<noteq> None))"
    using empty by simp
  have p1: "PostApiV1Hosts box1 (new_request box1 ''box1'' ''10.0.0.5'' ''Unknown'') =
      Inr (201, Some \<lparr>Host_HostRid = ''h1''\<rparr>)"
    by (simp add: box1_def)
  have p2: "PostApiV1Hosts box1_forgotten
        (new_request box1_forgotten ''box1'' ''10.0.0.5'' ''Unknown'') =
      Inr (201, Some \<lparr>Host_HostRid = ''h2''\<rparr>)"
    by (simp add: box1_forgotten_def)
  have p3: "\<not> (\<exists>h. PostApiV1Hosts box1_offline
        (new_request box1_offline ''box1'' ''10.0.0.5'' ''Unknown'') = Inr (201, Some h))"
    by (simp add: box1_offline_def)
  have q: "new_request box1_offline ''box1'' ''10.0.0.5'' ''Unknown'' =
      \<lparr>Hostname = ''box1'', IpAddress = ''10.0.0.5'', OsName = ''linux'', OsVersion = ''Unknown''\<rparr>"
    by (simp add: new_request_def box1_offline_def box1_def)
  have c: "(config ?fresh)\<lparr>HostRid := ''h1''\<rparr> = persisted_config"
    by (simp add: NewHostRegistrationService_def fresh_config_def persisted_config_def)
  note t1 = registerHost_create[OF cf b1, of "''box1''" "''10.0.0.5''" "''Unknown''"]
  note t2 = registerHost_create[OF co b2, of "''box1''" "''10.0.0.5''" "''Unknown''"]
  note t3 = registerHost_create[OF cf b3, of "''box1''" "''10.0.0.5''" "''Unknown''"]
  from t1 p1 have w1: "fst (registerHost box1 ?fresh ''box1'' ''10.0.0.5'' ''Unknown'') = OK"
    by blast
  from t1 p1 c have w2:
    "hostRid (fst (snd (registerHost box1 ?fresh ''box1'' ''10.0.0.5'' ''Unknown''))) = ''h1''"
    "filter is_Save (snd (snd (registerHost box1 ?fresh ''box1'' ''10.0.0.5'' ''Unknown''))) =
       [Save persisted_config ''config/config.yaml'']"
    by auto
  from t2 p2 have w3:
    "HostRid (config (fst (snd (registerHost box1_forgotten ?old
        ''box1'' ''10.0.0.5'' ''Unknown'')))) = ''h2''"
    by auto
  from t3 p3 have w4:
    "fst (snd (registerHost box1_offline ?fresh ''box1'' ''10.0.0.5'' ''Unknown'')) = ?fresh"
    by blast
  from t3 have w5:
    "filter is_Create (snd (snd (registerHost box1_offline ?fresh
        ''box1'' ''10.0.0.5'' ''Unknown''))) =
     [Create (new_request box1_offline ''box1'' ''10.0.0.5'' ''Unknown'')]"
    by blast
  show ?thesis using w1 w2 w3 w4 w5 unfolding q by simp
qed

text \<open>
  Claim C8. When the config holds a persisted identifier and the lookup call itself
  fails, \<open>registerHost\<close> returns the lookup failure; the service (its host RID and its
  config) is unchanged, and the single lookup is the only call made: no create call, no
  config save, no second lookup.
\<close>

theorem registerHost_lookup_failed:
  assumes "HostRid (config s) \<noteq> []" "client s = Some c"
    "GetApiV1HostsHostRid e (HostRid (config s)) = Inl err"
  shows "registerHost e s hostname ipAddress osVersion =
           (Error (CheckExistenceFailed err), s, [Lookup (HostRid (config s))])"
  using assms by (simp add: registerHost_def Let_def)

theorem registerHost_lookup_failed_witness:
  "registerHost box1_offline (NewHostRegistrationService persisted_config (Some somana_client))
     ''box1'' ''10.0.0.5'' ''Unknown'' =
   (Error (CheckExistenceFailed ''connection refused''),
    NewHostRegistrationService persisted_config (Some somana_client), [Lookup ''h1''])"
proof -
  let ?s = "NewHostRegistrationService persisted_config (Some somana_client)"
  have a: "HostRid (config ?s) \<noteq> []"
    by (simp add: NewHostRegistrationService_def persisted_config_def)
  have b: "client ?s = Some somana_client"
    by (simp add: NewHostRegistrationService_def)
  have c: "GetApiV1HostsHostRid box1_offline (HostRid (config ?s)) = Inl ''connection refused''"
    by (simp add: box1_offline_def)
  have d: "HostRid (config ?s) = ''h1''"
    by (simp add: NewHostRegistrationService_def persisted_config_def)
  show ?thesis
    using registerHost_lookup_failed[OF a b c, of "''box1''" "''10.0.0.5''" "''Unknown''"]
    unfolding d .
qed

section \<open>Unit collector: the parser\<close>



section \<open>Reporting tick: properties\<close>

text \<open>
  Claim C5. A failing unit collection does not stop the reporting tick. When
  \<open>systemctl\<close> is not on the path, \<open>getSystemdServices\<close> returns the empty list and no
  error. When it is absent or its invocation fails (a non-zero exit or any other error
  of the invocation), \<open>reportSystemdServices\<close> of a monitor with a client returns
  normally and has made exactly one report call, for the monitor's host RID and with the
  empty list of services, whatever the API answers. (On a failing invocation
  \<open>getSystemdServices\<close> itself hands an error to \<open>reportSystemdServices\<close>, which replaces
  it by the empty list.)
\<close>

theorem report_on_collector_failure:
  assumes "mon_client s = Some c"
    and "\<not> LookPath_found cenv \<or> (\<exists>err stderr. cmd_Output cenv = Inl (err, stderr))"
  shows "(\<not> LookPath_found cenv \<longrightarrow> getSystemdServices cenv = Inr []) \<and>
         (\<exists>evs. reportSystemdServices s cenv put_response = Inr evs \<and>
            filter is_Put evs = [PutSystemdServices (mon_hostRid s) []])"
  using assms
  by (auto simp: reportSystemdServices_def getSystemdServices_def Let_def
      split: sum.splits option.splits prod.splits cmd_error.splits)

text \<open>A host without \<open>systemctl\<close>, and a host where it exits with code 1.\<close>

theorem report_on_collector_failure_witness:
  "getSystemdServices \<lparr>LookPath_found = False, cmd_Output = Inr []\<rparr> = Inr [] \<and>
   (\<exists>evs. reportSystemdServices running_monitor
            \<lparr>LookPath_found = False, cmd_Output = Inr []\<rparr> (Inr 200) = Inr evs \<and>
          filter is_Put evs = [PutSystemdServices ''h1'' []]) \<and>
   (\<exists>evs. reportSystemdServices running_monitor
            \<lparr>LookPath_found = True,
              cmd_Output = Inl (ExitError 1, runes ''Failed to connect to bus'')\<rparr> (Inr 200) = Inr evs \<and>
          filter is_Put evs = [PutSystemdServices ''h1'' []])"
proof -
  have c: "mon_client running_monitor = Some somana_client"
    by (simp add: running_monitor_def NewSystemdMonitorService_def)
  have h: "mon_hostRid running_monitor = ''h1''"
    by (simp add: running_monitor_def NewSystemdMonitorService_def)
  let ?absent = "\<lparr>LookPath_found = False, cmd_Output = Inr []\<rparr>"
  let ?failing = "\<lparr>LookPath_found = True,
              cmd_Output = Inl (ExitError 1, runes ''Failed to connect to bus'')\<rparr>"
  have a1: "\<not> LookPath_found ?absent \<or> (\<exists>err stderr. cmd_Output ?absent = Inl (err, stderr))"
    by simp
  have a2: "\<not> LookPath_found ?failing \<or> (\<exists>err stderr. cmd_Output ?failing = Inl (err, stderr))"
    by simp
  show ?thesis
    using report_on_collector_failure[OF c a1, of "Inr 200"]
      report_on_collector_failure[OF c a2, of "Inr 200"]
    unfolding h by simp
qed

section \<open>Heartbeat loop: properties\<close>

lemma sendHeartbeat_cases:
  assumes "client s = Some c"
  shows "sendHeartbeat s r =
           (if beat_failed r
            then (Error (case r of Inl err \<Rightarrow> HeartbeatRequestFailed err
                                 | Inr status \<Rightarrow> HeartbeatStatus status), [Beat (hostRid s)])
            else (OK, [Beat (hostRid s), LogHeartbeatSent]))"
  using assms by (cases r) (simp_all add: sendHeartbeat_def)

text \<open>
  Claim C6. A failed beat never ends the heartbeat loop. For a service with a client and
  every run of the loop (every sequence of what its selects receive, every answer to
  every beat): the loop has returned if and only if one of its selects received from the
  stop channel, and otherwise is still waiting; every tick received before that has
  sent one heartbeat for the host RID, whether or not earlier beats failed; and every
  failed beat (transport error or a status other than 200) has left one log line. The
  ticks are the firings of the 5-second ticker; the time between them is not part of
  the model.
\<close>

theorem heartbeat_survives_failures:
  assumes "client s = Some c"
  shows "fst (startHeartbeat s sel) = (if stop_received sel then Returned else Waiting) \<and>
         filter is_Beat (snd (startHeartbeat s sel)) =
           replicate (length (ticks_before_stop sel)) (Beat (hostRid s)) \<and>
         length (filter is_LogHeartbeatFailed (snd (startHeartbeat s sel))) =
           length (filter beat_failed (ticks_before_stop sel))"
proof (induction sel)
  case Nil
  then show ?case by simp
next
  case (Cons x sel)
  show ?case
  proof (cases x)
    case StopChan
    then show ?thesis by simp
  next
    case (TickerC r)
    obtain st evs where rest: "startHeartbeat s sel = (st, evs)" by (cases "startHeartbeat s sel")
    show ?thesis
      using Cons.IH unfolding TickerC
      by (simp add: sendHeartbeat_cases[OF assms] rest)
  qed
qed

text \<open>Three ticks of which the first and the last fail; and a stop after a failed beat.\<close>

theorem heartbeat_survives_failures_witness:
  "fst (startHeartbeat registered_service
          [TickerC (Inl ''timeout''), TickerC (Inr 200), TickerC (Inr 503)]) = Waiting \<and>
   filter is_Beat (snd (startHeartbeat registered_service
          [TickerC (Inl ''timeout''), TickerC (Inr 200), TickerC (Inr 503)])) =
     [Beat ''h1'', Beat ''h1'', Beat ''h1''] \<and>
   length (filter is_LogHeartbeatFailed (snd (startHeartbeat registered_service
          [TickerC (Inl ''timeout''), TickerC (Inr 200), TickerC (Inr 503)]))) = 2 \<and>
   fst (startHeartbeat registered_service
          [TickerC (Inl ''timeout''), StopChan, TickerC (Inr 200)]) = Returned"
proof -
  have c: "client registered_service = Some somana_client"
    by (simp add: registered_service_def)
  have h: "hostRid registered_service = ''h1''"
    by (simp add: registered_service_def)
  show ?thesis
    using heartbeat_survives_failures[OF c,
        of "[TickerC (Inl ''timeout''), TickerC (Inr 200), TickerC (Inr 503)]"]
      heartbeat_survives_failures[OF c,
        of "[TickerC (Inl ''timeout''), StopChan, TickerC (Inr 200)]"]
    unfolding h by (simp add: numeral_eq_Suc)
qed

section \<open>Stopping a service\<close>

text \<open>
  Claim C7, as stated: a second \<open>Stop\<close> on the same service is a guarded no-op. It is
  not: \<open>Stop\<close> closes the stop channel whenever the service is configured, with no
  record of an earlier close, so the second call closes a closed channel, which panics.
\<close>

theorem Stop_twice_counterexample:
  "Stop_twice registered_service = Inl CloseOfClosedChannel \<and>
   mon_Stop_twice running_monitor = Inl CloseOfClosedChannel"
  by (simp add: Stop_twice_def Stop_def registered_service_def persisted_config_def
      mon_Stop_twice_def mon_Stop_def running_monitor_def NewSystemdMonitorService_def)

text \<open>
  Claim C7, amended. On a service whose stop channel is open, the first \<open>Stop\<close> closes
  the channel and returns when the service is configured (registration URL not empty,
  respectively monitor host RID not empty), and a second \<open>Stop\<close> then panics on the
  closed channel; when the service is not configured, \<open>Stop\<close> does nothing, however
  often it is called.
\<close>

theorem Stop_once_only:
  "(stopChan s = Open \<longrightarrow>
      (SprinterURL (config s) \<noteq> [] \<longrightarrow>
         Stop s = Inr (s\<lparr>stopChan := Closed\<rparr>) \<and> Stop_twice s = Inl CloseOfClosedChannel) \<and>
      (SprinterURL (config s) = [] \<longrightarrow> Stop s = Inr s \<and> Stop_twice s = Inr s)) \<and>
   (mon_stopChan m = Open \<longrightarrow>
      (mon_hostRid m \<noteq> [] \<longrightarrow>
         mon_Stop m = Inr (m\<lparr>mon_stopChan := Closed\<rparr>) \<and>
         mon_Stop_twice m = Inl CloseOfClosedChannel) \<and>
      (mon_hostRid m = [] \<longrightarrow> mon_Stop m = Inr m \<and> mon_Stop_twice m = Inr m))"
  by (simp add: Stop_twice_def Stop_def mon_Stop_twice_def mon_Stop_def)

theorem Stop_once_only_witness:
  "Stop registered_service = Inr (registered_service\<lparr>stopChan := Closed\<rparr>) \<and>
   Stop_twice registered_service = Inl CloseOfClosedChannel \<and>
   mon_Stop running_monitor = Inr (running_monitor\<lparr>mon_stopChan := Closed\<rparr>) \<and>
   mon_Stop_twice running_monitor = Inl CloseOfClosedChannel \<and>
   Stop_twice (NewHostRegistrationService unconfigured None) =
     Inr (NewHostRegistrationService unconfigured None) \<and>
   mon_Stop_twice (NewSystemdMonitorService unconfigured None []) =
     Inr (NewSystemdMonitorService unconfigured None [])"
proof -
  have a: "stopChan registered_service = Open" "SprinterURL (config registered_service) \<noteq> []"
    by (simp_all add: registered_service_def persisted_config_def)
  have b: "mon_stopChan running_monitor = Open" "mon_hostRid running_monitor \<noteq> []"
    by (simp_all add: running_monitor_def NewSystemdMonitorService_def)
  have c: "stopChan (NewHostRegistrationService unconfigured None) = Open"
     "SprinterURL (config (NewHostRegistrationService unconfigured None)) = []"
    by (simp_all add: NewHostRegistrationService_def unconfigured_def)
  have d: "mon_stopChan (NewSystemdMonitorService unconfigured None []) = Open"
     "mon_hostRid (NewSystemdMonitorService unconfigured None []) = []"
    by (simp_all add: NewSystemdMonitorService_def)
  show ?thesis
    using Stop_once_only[of registered_service running_monitor]
      Stop_once_only[of "NewHostRegistrationService unconfigured None"
        "NewSystemdMonitorService unconfigured None []"]
      a b c d
    by simp
qed

section \<open>Local address and start of the registration service\<close>

lemma first_ipv4_find:
  "first_ipv4 addrs =
     (case List.find usable_ipv4 addrs of
        None \<Rightarrow> ''127.0.0.1''
      | Some addr \<Rightarrow> (case To4 addr of None \<Rightarrow> [] | Some ip4 \<Rightarrow> String4 ip4))"
  by (induction addrs) (auto simp: usable_ipv4_def split: option.splits)

text \<open>
  Claim C9, as stated: local address resolution falls back to 127.0.0.1 instead of
  failing, so that registration is never blocked by it. It can fail: when the lookup of
  the host's own name fails, \<open>getLocalIP\<close> returns that error, and \<open>Start\<close> returns an
  error without having attempted the registration.
\<close>

theorem getLocalIP_counterexample:
  "getLocalIP box1_unresolvable = Inl ''no such host'' \<and>
   Start box1_unresolvable (NewHostRegistrationService fresh_config (Some somana_client)) =
     (Error (IPAddressFailed ''no such host''),
      NewHostRegistrationService fresh_config (Some somana_client), [])"
  by (simp add: getLocalIP_def Start_def box1_unresolvable_def box1_def
      NewHostRegistrationService_def fresh_config_def)

lemma registerHost_first_call:
  assumes "client s = Some c"
  shows "\<exists>call rest. snd (snd (registerHost e s hn ip osv)) = call # rest \<and>
           (is_Lookup call \<or> is_Create call)"
  using assms
  by (auto simp: registerHost_def create_host_def Let_def
      split: sum.splits option.splits prod.splits)

text \<open>
  Claim C9, amended. When the host name is obtained and its lookup succeeds,
  \<open>getLocalIP\<close> does not fail: it returns the dotted form of the first address that is
  IPv4 and not loopback, and 127.0.0.1 when the lookup gave no such address. \<open>Start\<close> of
  a configured service is then not blocked by the address resolution: it goes on to
  \<open>registerHost\<close> with the host name, that address and the OS version, its outcome is
  the outcome of that registration (with the heartbeat goroutine started on success),
  never an address or host-name error, and with a client its first call is the lookup
  or the create call of the registration. When obtaining the host name or the lookup
  itself fails, \<open>getLocalIP\<close> returns that error, and \<open>Start\<close> of a configured service
  returns an error, leaves the service unchanged and makes no call.
\<close>

theorem getLocalIP_amended:
  "(os_Hostname e = Inr name \<and> net_LookupIP e name = Inr addrs \<longrightarrow>
      getLocalIP e =
        Inr (case List.find usable_ipv4 addrs of
               None \<Rightarrow> ''127.0.0.1''
             | Some addr \<Rightarrow> (case To4 addr of None \<Rightarrow> [] | Some ip4 \<Rightarrow> String4 ip4)) \<and>
      (SprinterURL (config s) \<noteq> [] \<longrightarrow>
         Start e s =
           (case registerHost e s name
                   (case List.find usable_ipv4 addrs of
                      None \<Rightarrow> ''127.0.0.1''
                    | Some addr \<Rightarrow> (case To4 addr of None \<Rightarrow> [] | Some ip4 \<Rightarrow> String4 ip4))
                   (case os_version e of Inl verr \<Rightarrow> ''Unknown'' | Inr v \<Rightarrow> v) of
              (OK, s', effs) \<Rightarrow> (OK, s', effs @ [GoStartHeartbeat])
            | (Error rerr, s', effs) \<Rightarrow> (Error (RegisterFailed rerr), s', effs)
            | (Panicked p, s', effs) \<Rightarrow> (Panicked p, s', effs)) \<and>
         (\<forall>aerr. fst (Start e s) \<noteq> Error (IPAddressFailed aerr) \<and>
                 fst (Start e s) \<noteq> Error (HostnameFailed aerr)) \<and>
         (client s \<noteq> None \<longrightarrow>
            (\<exists>call rest. snd (snd (Start e s)) = call # rest \<and>
               (is_Lookup call \<or> is_Create call))))) \<and>
   (os_Hostname e = Inl err \<or> (os_Hostname e = Inr name \<and> net_LookupIP e name = Inl err) \<longrightarrow>
      getLocalIP e = Inl err \<and>
      (SprinterURL (config s) \<noteq> [] \<longrightarrow>
         (\<exists>serr. Start e s = (Error serr, s, []))))"
proof -
  let ?ip = "case List.find usable_ipv4 addrs of
               None \<Rightarrow> ''127.0.0.1''
             | Some addr \<Rightarrow> (case To4 addr of None \<Rightarrow> [] | Some ip4 \<Rightarrow> String4 ip4)"
  let ?osv = "case os_version e of Inl verr \<Rightarrow> ''Unknown'' | Inr v \<Rightarrow> v"
  let ?after = "\<lambda>r. case r of
              (OK, s', effs) \<Rightarrow> (OK, s', effs @ [GoStartHeartbeat])
            | (Error rerr, s', effs) \<Rightarrow> (Error (RegisterFailed rerr), s', effs)
            | (Panicked p, s', effs) \<Rightarrow> (Panicked p, s', effs)"
  have fail: "getLocalIP e = Inl err \<and>
      (SprinterURL (config s) \<noteq> [] \<longrightarrow> (\<exists>serr. Start e s = (Error serr, s, [])))"
    if "os_Hostname e = Inl err \<or> (os_Hostname e = Inr name \<and> net_LookupIP e name = Inl err)"
    using that by (auto simp: getLocalIP_def Start_def)
  have ok: "getLocalIP e = Inr ?ip"
    if "os_Hostname e = Inr name" "net_LookupIP e name = Inr addrs"
    using that by (simp add: getLocalIP_def first_ipv4_find)
  have start: "Start e s = ?after (registerHost e s name ?ip ?osv)"
    if "os_Hostname e = Inr name" "net_LookupIP e name = Inr addrs" "SprinterURL (config s) \<noteq> []"
    using that ok[OF that(1,2)] by (simp add: Start_def Let_def)
  have noaddr: "fst (?after r) \<noteq> Error (IPAddressFailed aerr) \<and>
                fst (?after r) \<noteq> Error (HostnameFailed aerr)" for r aerr
    by (auto split: prod.splits result.splits)
  have first: "\<exists>call rest. snd (snd (?after (registerHost e s name ?ip ?osv))) = call # rest \<and>
               (is_Lookup call \<or> is_Create call)" if "client s \<noteq> None"
  proof -
    from that obtain c where c: "client s = Some c" by auto
    from registerHost_first_call[OF c, of e name ?ip ?osv]
    obtain call rest where
      r: "snd (snd (registerHost e s name ?ip ?osv)) = call # rest"
        "is_Lookup call \<or> is_Create call"
      by blast
    obtain res s' effs where t: "registerHost e s name ?ip ?osv = (res, s', effs)"
      by (cases "registerHost e s name ?ip ?osv") auto
    show ?thesis using r unfolding t by (cases res) auto
  qed
  have good: "getLocalIP e = Inr ?ip \<and>
      (SprinterURL (config s) \<noteq> [] \<longrightarrow>
         Start e s = ?after (registerHost e s name ?ip ?osv) \<and>
         (\<forall>aerr. fst (Start e s) \<noteq> Error (IPAddressFailed aerr) \<and>
                 fst (Start e s) \<noteq> Error (HostnameFailed aerr)) \<and>
         (client s \<noteq> None \<longrightarrow>
            (\<exists>call rest. snd (snd (Start e s)) = call # rest \<and>
               (is_Lookup call \<or> is_Create call))))"
    if h: "os_Hostname e = Inr name \<and> net_LookupIP e name = Inr addrs"
  proof (intro conjI impI allI)
    show "getLocalIP e = Inr ?ip" using h ok by blast
  next
    assume url: "SprinterURL (config s) \<noteq> []"
    show "Start e s = ?after (registerHost e s name ?ip ?osv)"
      using h url start by blast
  next
    fix aerr
    assume url: "SprinterURL (config s) \<noteq> []"
    have eq: "Start e s = ?after (registerHost e s name ?ip ?osv)"
      using h url start by blast
    show "fst (Start e s) \<noteq> Error (IPAddressFailed aerr)"
      unfolding eq using noaddr by blast
  next
    fix aerr
    assume url: "SprinterURL (config s) \<noteq> []"
    have eq: "Start e s = ?after (registerHost e s name ?ip ?osv)"
      using h url start by blast
    show "fst (Start e s) \<noteq> Error (HostnameFailed aerr)"
      unfolding eq using noaddr by blast
  next
    assume url: "SprinterURL (config s) \<noteq> []" and cl: "client s \<noteq> None"
    have eq: "Start e s = ?after (registerHost e s name ?ip ?osv)"
      using h url start by blast
    show "\<exists>call rest. snd (snd (Start e s)) = call # rest \<and>
               (is_Lookup call \<or> is_Create call)"
      unfolding eq using first[OF cl] .
  qed
  show ?thesis
    using good fail by blast
qed

text \<open>A host with a loopback, an IPv6 and a routable IPv4 address, and the same host with
  its loopback address only: both register, the second with 127.0.0.1. The same host
  when its name does not resolve: \<open>Start\<close> fails before any call.\<close>

theorem getLocalIP_amended_witness:
  "getLocalIP box1 = Inr ''10.0.0.5'' \<and>
   Start box1 (NewHostRegistrationService fresh_config (Some somana_client)) =
     (OK, registered_service,
      [Create \<lparr>Hostname = ''box1'', IpAddress = ''10.0.0.5'', OsName = ''linux'',
               OsVersion = ''Unknown''\<rparr>,
       Save persisted_config ''config/config.yaml'', GoStartHeartbeat]) \<and>
   getLocalIP box1_loopback_only = Inr ''127.0.0.1'' \<and>
   Start box1_loopback_only (NewHostRegistrationService fresh_config (Some somana_client)) =
     (OK, registered_service,
      [Create \<lparr>Hostname = ''box1'', IpAddress = ''127.0.0.1'', OsName = ''linux'',
               OsVersion = ''Unknown''\<rparr>,
       Save persisted_config ''config/config.yaml'', GoStartHeartbeat]) \<and>
   getLocalIP box1_unresolvable = Inl ''no such host'' \<and>
   (\<exists>serr. Start box1_unresolvable registered_service = (Error serr, registered_service, []))"
proof -
  let ?addrs = "[[127, 0, 0, 1], [0, 0, 0, 0, 0, 0, 0, 0, 0, 0, 0, 0, 0, 0, 0, 1],
                 [10, 0, 0, 5]] :: IP list"
  let ?fresh = "NewHostRegistrationService fresh_config (Some somana_client)"
  have h: "os_Hostname box1 = Inr ''box1'' \<and> net_LookupIP box1 ''box1'' = Inr ?addrs"
    by (simp add: box1_def)
  have hl: "os_Hostname box1_loopback_only = Inr ''box1'' \<and>
            net_LookupIP box1_loopback_only ''box1'' = Inr [[127, 0, 0, 1]]"
    by (simp add: box1_loopback_only_def box1_def)
  have hu: "os_Hostname box1_unresolvable = Inr ''box1'' \<and>
            net_LookupIP box1_unresolvable ''box1'' = Inl ''no such host''"
    by (simp add: box1_unresolvable_def box1_def)
  have url: "SprinterURL (config registered_service) \<noteq> []"
    by (simp add: registered_service_def persisted_config_def)
  have urlf: "SprinterURL (config ?fresh) \<noteq> []"
    by (simp add: NewHostRegistrationService_def fresh_config_def)
  have osv: "os_version box1 = Inl ''no os-release''"
    "os_version box1_loopback_only = Inl ''no os-release''"
    by (simp_all add: box1_loopback_only_def box1_def)
  have u1: "\<not> usable_ipv4 [127, 0, 0, 1]"
    by (simp add: usable_ipv4_def IsLoopback_def To4_def)
  have u2: "\<not> usable_ipv4 [0, 0, 0, 0, 0, 0, 0, 0, 0, 0, 0, 0, 0, 0, 0, 1]"
    by (simp add: usable_ipv4_def IsLoopback_def To4_def IPv6loopback_def isZeros_def)
  have u3: "usable_ipv4 [10, 0, 0, 5]"
    by (simp add: usable_ipv4_def IsLoopback_def To4_def)
  have s3: "To4 [10, 0, 0, 5] = Some [10, 0, 0, 5]" by (simp add: To4_def)
  have s4: "String4 [10, 0, 0, 5] = ''10.0.0.5''"
    by (simp add: String4_def ubtoa_def digits_def)
  have r1: "registerHost box1 ?fresh ''box1'' ''10.0.0.5'' ''Unknown'' =
      (OK, registered_service,
       [Create \<lparr>Hostname = ''box1'', IpAddress = ''10.0.0.5'', OsName = ''linux'',
                OsVersion = ''Unknown''\<rparr>,
        Save persisted_config ''config/config.yaml''])"
    by (simp add: registerHost_def create_host_def new_request_def box1_def Let_def
        NewHostRegistrationService_def fresh_config_def persisted_config_def
        registered_service_def)
  have r2: "registerHost box1_loopback_only ?fresh ''box1'' ''127.0.0.1'' ''Unknown'' =
      (OK, registered_service,
       [Create \<lparr>Hostname = ''box1'', IpAddress = ''127.0.0.1'', OsName = ''linux'',
                OsVersion = ''Unknown''\<rparr>,
        Save persisted_config ''config/config.yaml''])"
    by (simp add: registerHost_def create_host_def new_request_def box1_loopback_only_def
        box1_def Let_def NewHostRegistrationService_def fresh_config_def persisted_config_def
        registered_service_def)
  note t1 = getLocalIP_amended[where e = box1 and name = "''box1''" and addrs = ?addrs
      and s = ?fresh and err = "''x''"]
  note t2 = getLocalIP_amended[where e = box1_loopback_only and name = "''box1''"
      and addrs = "[[127, 0, 0, 1]]" and s = ?fresh and err = "''x''"]
  note t3 = getLocalIP_amended[where e = box1_unresolvable and name = "''box1''"
      and addrs = "[]" and s = registered_service and err = "''no such host''"]
  from t1 h urlf have a:
    "getLocalIP box1 = Inr ''10.0.0.5''"
    "Start box1 ?fresh =
       (OK, registered_service,
        [Create \<lparr>Hostname = ''box1'', IpAddress = ''10.0.0.5'', OsName = ''linux'',
                 OsVersion = ''Unknown''\<rparr>,
         Save persisted_config ''config/config.yaml'', GoStartHeartbeat])"
    by (simp_all add: u1 u2 u3 s3 s4 osv r1)
  from t2 hl urlf have b:
    "getLocalIP box1_loopback_only = Inr ''127.0.0.1''"
    "Start box1_loopback_only ?fresh =
       (OK, registered_service,
        [Create \<lparr>Hostname = ''box1'', IpAddress = ''127.0.0.1'', OsName = ''linux'',
                 OsVersion = ''Unknown''\<rparr>,
         Save persisted_config ''config/config.yaml'', GoStartHeartbeat])"
    by (simp_all add: u1 osv r2)
  from t3 hu url have c:
    "getLocalIP box1_unresolvable = Inl ''no such host''"
    "\<exists>serr. Start box1_unresolvable registered_service = (Error serr, registered_service, [])"
    by simp_all
  show ?thesis using a b c by simp
qed

text \<open>
  Claim C10. When the configured registration URL is the empty string, \<open>Start\<close> returns
  without error at once: the service is unchanged (no host RID is assigned), no call is
  made (no lookup, no create, no save) and the heartbeat goroutine is not started.
\<close>

theorem Start_unconfigured:
  "SprinterURL (config s) = [] \<Longrightarrow> Start e s = (OK, s, [])"
  by (simp add: Start_def)

theorem Start_unconfigured_witness:
  "Start box1 (NewHostRegistrationService unconfigured (Some somana_client)) =
     (OK, NewHostRegistrationService unconfigured (Some somana_client), [])"
proof -
  have u: "SprinterURL (config (NewHostRegistrationService unconfigured (Some somana_client))) = []"
    by (simp add: NewHostRegistrationService_def unconfigured_def)
  show ?thesis by (rule Start_unconfigured[OF u])
qed

end
